theory Spec2Isabelle
  imports Main "HOL-Library.AList"
begin

section \<open>The HTTP proxy of usque: \<open>cmd/httpproxy.go\<close>\<close>

text \<open>
  The request-handling part of \<open>cmd/httpproxy.go\<close> is embedded here: \<open>authenticate\<close>,
  the handler closure of \<open>httpProxyCmd\<close>, \<open>handleHTTPSConnect\<close>, \<open>handleHTTPProxy\<close>
  and \<open>copyHeader\<close>.

  The handlers are effectful: they call the response writer, the tunnel's dialer, the
  HTTP client and the two connections of a tunnel. The model threads a \<open>world\<close> through
  each handler: the header map of the response writer, and the log of the calls made on
  the collaborators, in program order. What the collaborators answer (does the dial
  succeed, can the writer be hijacked, what does the upstream respond) is not decided by
  the code; it is the \<open>env\<close> argument, and the theorems on the handlers hold for every one.
\<close>

subsection \<open>Data\<close>

type_synonym bytes = string

text \<open>A Go \<open>error\<close> value: only its being non-nil matters to this code.\<close>

datatype go_error = GoError string

text \<open>\<open>context.Context\<close>: the background context, or the context of an inbound request.\<close>

datatype "context" = Background | RequestContext nat

text \<open>A \<open>net.Conn\<close>, by identity.\<close>

datatype conn = Conn nat

text \<open>
  \<open>http.Header\<close> is \<open>map[string][]string\<close>. It is an association list here, because
  \<open>copyHeader\<close> ranges over it; a Go map has each key once, and ranges in no fixed
  order, so the theorems on \<open>copyHeader\<close> hold for every order of the list.
\<close>

type_synonym header = "(string \<times> string list) list"

text \<open>
  \<open>*http.Request\<close>, the fields this code reads: \<open>r.Method\<close>, \<open>r.URL\<close> (through
  \<open>r.URL.String()\<close>, so it is kept in its string form), \<open>r.Host\<close>, \<open>r.Header\<close>,
  \<open>r.Body\<close> and \<open>r.Context()\<close>.
\<close>

record request =
  Method :: string
  URL :: string
  Host :: string
  Header :: header
  Body :: bytes
  ctx :: "context"

text \<open>\<open>*http.Response\<close>: \<open>resp.StatusCode\<close>, \<open>resp.Header\<close>, \<open>resp.Body\<close>.\<close>

record response =
  statusCode :: int
  respHeader :: header
  respBody :: bytes

text \<open>
  The calls a handler makes, as they appear in the log. \<open>HttpError\<close> and \<open>WriteHeader\<close>
  carry the header map of the response writer as it stands when the call is made.
  \<open>ClientDo\<close> is the call of \<open>client.Do\<close>, inside which the client's transport dials
  the destination through \<open>tunNet.DialContext\<close>; that dial is made by the transport, not
  by the handler, and the connection stays with the transport.
\<close>

datatype event =
    HttpError header string int
  | WriteHeader header int
  | CopyToWriter bytes
  | DialContext "context" string string
  | Hijack
  | ConnWrite conn bytes
  | ConnClose conn
  | GoCopy conn conn
  | Copy conn conn
  | ClientDo request
  | BodyClose

record world =
  w_header :: header
  log :: "event list"

text \<open>
  The answers of the collaborators.
  \<^item> \<open>canonicalKey\<close>: \<open>textproto.CanonicalMIMEHeaderKey\<close>, which \<open>Header.Get\<close>,
    \<open>Header.Set\<close>, \<open>Header.Add\<close> and \<open>Header.Del\<close> apply to their key;
  \<^item> \<open>dialContext\<close>: \<open>tunNet.DialContext(ctx, network, address)\<close>;
  \<^item> \<open>hijacker\<close>: \<open>None\<close> when \<open>w\<close> is not an \<open>http.Hijacker\<close>, else the result of
    \<open>hj.Hijack()\<close> (the buffered reader it also returns is dropped by the code);
  \<^item> \<open>connWrite\<close>: the result \<open>(n, err)\<close> of \<open>Write\<close> on a connection;
  \<^item> \<open>urlParseError\<close>: the error of \<open>url.Parse\<close> on a URL string, if any;
  \<^item> \<open>urlHost\<close>: the host of a URL given as a string, which \<open>http.NewRequest\<close> stores
    in the \<open>Host\<close> field of the request it builds;
  \<^item> \<open>roundTrip\<close>: the exchange with the upstream that \<open>client.Do(req)\<close> runs over the
    tunnel: an error (the dial or the transfer failed, or the redirects did not end), or
    the response as the upstream sent it, headers and body; when the client follows
    redirects, which it does by itself, it is the response of the last hop;
  \<^item> \<open>gunzip\<close>: the bytes a gzip stream decodes to.
\<close>

record env =
  canonicalKey :: "string \<Rightarrow> string"
  dialContext :: "context \<Rightarrow> string \<Rightarrow> string \<Rightarrow> go_error + conn"
  hijacker :: "(go_error + conn) option"
  connWrite :: "conn \<Rightarrow> bytes \<Rightarrow> nat \<times> go_error option"
  urlParseError :: "string \<Rightarrow> go_error option"
  urlHost :: "string \<Rightarrow> string"
  roundTrip :: "request \<Rightarrow> go_error + response"
  gunzip :: "bytes \<Rightarrow> bytes"

subsection \<open>\<open>http.Header\<close>\<close>

text \<open>\<open>h[key]\<close>: the values stored under a key, \<open>nil\<close> when there are none.\<close>

definition header_values :: "header \<Rightarrow> string \<Rightarrow> string list" where
  "header_values h key = (case map_of h key of None \<Rightarrow> [] | Some vs \<Rightarrow> vs)"

text \<open>\<open>h.Get(key)\<close>: the first value under the canonical key, \<open>""\<close> when there is none.\<close>

definition header_get :: "(string \<Rightarrow> string) \<Rightarrow> header \<Rightarrow> string \<Rightarrow> string" where
  "header_get ck h key = (case header_values h (ck key) of [] \<Rightarrow> [] | v # _ \<Rightarrow> v)"

text \<open>\<open>h.Set(key, value)\<close>: the canonical key now holds the one value.\<close>

definition header_set :: "(string \<Rightarrow> string) \<Rightarrow> header \<Rightarrow> string \<Rightarrow> string \<Rightarrow> header" where
  "header_set ck h key v = AList.update (ck key) [v] h"

text \<open>\<open>h.Add(key, value)\<close>: the value is appended to those under the canonical key.\<close>

definition header_add :: "(string \<Rightarrow> string) \<Rightarrow> header \<Rightarrow> string \<Rightarrow> string \<Rightarrow> header" where
  "header_add ck h key v = AList.update (ck key) (header_values h (ck key) @ [v]) h"

text \<open>\<open>h.Del(key)\<close>: the canonical key holds nothing any more.\<close>

definition header_del :: "(string \<Rightarrow> string) \<Rightarrow> header \<Rightarrow> string \<Rightarrow> header" where
  "header_del ck h key = AList.delete (ck key) h"

subsection \<open>The response writer and the log\<close>

definition emit :: "event \<Rightarrow> world \<Rightarrow> world" where
  "emit ev w = w\<lparr>log := log w @ [ev]\<rparr>"

text \<open>
  \<open>http.Error(w, msg, code)\<close> of \<open>net/http\<close>:
  \<^verbatim>\<open>h := w.Header()
h.Del("Content-Length")
h.Set("Content-Type", "text/plain; charset=utf-8")
h.Set("X-Content-Type-Options", "nosniff")
w.WriteHeader(code)
fmt.Fprintln(w, error)\<close>
  The event is the call, with the header map as the caller left it; the world after the
  call has the header map as \<open>http.Error\<close> changed it, which is the one it sent.
\<close>

definition error_header :: "(string \<Rightarrow> string) \<Rightarrow> header \<Rightarrow> header" where
  "error_header ck h =
     header_set ck
       (header_set ck (header_del ck h ''Content-Length'')
          ''Content-Type'' ''text/plain; charset=utf-8'')
       ''X-Content-Type-Options'' ''nosniff''"

definition http_Error :: "(string \<Rightarrow> string) \<Rightarrow> string \<Rightarrow> int \<Rightarrow> world \<Rightarrow> world" where
  "http_Error ck msg code w =
     emit (HttpError (w_header w) msg code) (w\<lparr>w_header := error_header ck (w_header w)\<rparr>)"

definition StatusBadRequest :: int where "StatusBadRequest = 400"
definition StatusProxyAuthRequired :: int where "StatusProxyAuthRequired = 407"
definition StatusInternalServerError :: int where "StatusInternalServerError = 500"
definition StatusServiceUnavailable :: int where "StatusServiceUnavailable = 503"

subsection \<open>\<open>authenticate\<close>\<close>

text \<open>
  \<^verbatim>\<open>authHeader := r.Header.Get("Proxy-Authorization")
return authHeader == expectedAuth\<close>
\<close>

definition authenticate :: "(string \<Rightarrow> string) \<Rightarrow> request \<Rightarrow> string \<Rightarrow> bool" where
  "authenticate ck r expectedAuth =
     (let authHeader = header_get ck (Header r) ''Proxy-Authorization''
      in authHeader = expectedAuth)"

subsection \<open>\<open>handleHTTPSConnect\<close>\<close>

text \<open>The bytes of \<open>"HTTP/1.1 200 Connection Established\r\n\r\n"\<close>.\<close>

definition success_line :: bytes where
  "success_line =
     ''HTTP/1.1 200 Connection Established'' @ [CHR 0x0D, CHR 0x0A, CHR 0x0D, CHR 0x0A]"

text \<open>
  \<^verbatim>\<open>destConn, err := tunNet.DialContext(r.Context(), "tcp", r.Host)
if err != nil {
    http.Error(w, "Unable to connect to destination", http.StatusServiceUnavailable)
    return
}
defer destConn.Close()
hj, ok := w.(http.Hijacker)
if !ok {
    http.Error(w, "Hijacking not supported", http.StatusInternalServerError)
    return
}
clientConn, _, err := hj.Hijack()
if err != nil {
    http.Error(w, "Hijacking failed", http.StatusInternalServerError)
    return
}
defer clientConn.Close()
clientConn.Write([]byte("HTTP/1.1 200 Connection Established\r\n\r\n"))
go io.Copy(destConn, clientConn)
io.Copy(clientConn, destConn)\<close>

  A \<open>defer c.Close()\<close> runs when the function returns, on every path after the
  \<open>defer\<close> statement: the model appends the close to the world the rest of the body
  produces. The later \<open>defer\<close> (the client connection) runs first.

  The two \<open>io.Copy\<close> calls are logged as calls: \<open>GoCopy dst src\<close> for the copy started
  on a goroutine of its own, \<open>Copy dst src\<close> for the copy the handler itself runs, which
  returns when that direction ends. The log is that of an execution in which it does
  return; a relay that is still running is the subject of the model of the relay below.
\<close>

definition handleHTTPSConnect :: "env \<Rightarrow> request \<Rightarrow> world \<Rightarrow> world" where
  "handleHTTPSConnect e r w =
     (let w1 = emit (DialContext (ctx r) ''tcp'' (Host r)) w in
      case dialContext e (ctx r) ''tcp'' (Host r) of
        Inl err \<Rightarrow> http_Error (canonicalKey e) ''Unable to connect to destination''
                     StatusServiceUnavailable w1
      | Inr destConn \<Rightarrow>
          emit (ConnClose destConn)
            (case hijacker e of
               None \<Rightarrow> http_Error (canonicalKey e) ''Hijacking not supported''
                         StatusInternalServerError w1
             | Some hj \<Rightarrow>
                 (let w2 = emit Hijack w1 in
                  case hj of
                    Inl err \<Rightarrow> http_Error (canonicalKey e) ''Hijacking failed''
                                 StatusInternalServerError w2
                  | Inr clientConn \<Rightarrow>
                      emit (ConnClose clientConn)
                        (let w3 = emit (ConnWrite clientConn success_line) w2;
                             discarded = connWrite e clientConn success_line;
                             w4 = emit (GoCopy destConn clientConn) w3
                         in emit (Copy clientConn destConn) w4))))"

subsection \<open>\<open>copyHeader\<close> and \<open>handleHTTPProxy\<close>\<close>

text \<open>
  \<^verbatim>\<open>for k, vv := range src { for _, v := range vv { dst.Add(k, v) } }\<close>
\<close>

fun copyHeader :: "(string \<Rightarrow> string) \<Rightarrow> header \<Rightarrow> header \<Rightarrow> header" where
  "copyHeader ck dst [] = dst"
| "copyHeader ck dst ((k, vv) # src) =
     copyHeader ck (foldl (\<lambda>d v. header_add ck d k v) dst vv) src"

text \<open>
  \<open>http.NewRequest(method, url, body)\<close> of \<open>net/http\<close>: the empty method stands for
  \<open>GET\<close>; a method that is not a token (a non-empty string of letters, digits and
  \<open>!#$%&'*+-.^_`|~\<close>) is an error; so is a URL that \<open>url.Parse\<close> refuses; else the
  request has the background context, the method, the URL parsed from the string, that
  URL's host, no headers, and the body.
\<close>

definition isTokenRune :: "char \<Rightarrow> bool" where
  "isTokenRune c \<longleftrightarrow>
     c \<in> set (''!#$%&*+-.^_|~0123456789ABCDEFGHIJKLMNOPQRSTUVWXYZabcdefghijklmnopqrstuvwxyz''
              @ [CHR 0x27, CHR 0x60])"

definition validMethod :: "string \<Rightarrow> bool" where
  "validMethod m \<longleftrightarrow> m \<noteq> [] \<and> list_all isTokenRune m"

definition newRequest :: "env \<Rightarrow> string \<Rightarrow> string \<Rightarrow> bytes \<Rightarrow> go_error + request" where
  "newRequest e m u b =
     (let m1 = (if m = [] then ''GET'' else m) in
      if \<not> validMethod m1 then Inl (GoError ''net/http: invalid method'')
      else case urlParseError e u of
             Some err \<Rightarrow> Inl err
           | None \<Rightarrow> Inr \<lparr>Method = m1, URL = u, Host = urlHost e u,
                          Header = [], Body = b, ctx = Background\<rparr>)"

text \<open>
  \<open>client.Do(req)\<close>, for the client the handler builds:
  \<^verbatim>\<open>client := &http.Client{
    Transport: &http.Transport{
        DialContext: tunNet.DialContext,
    },
}\<close>
  No other field is set, so the transport's \<open>DisableCompression\<close> is false: when the
  request has no \<open>Accept-Encoding\<close> and no \<open>Range\<close> header and is not a \<open>HEAD\<close>, the
  transport asks for gzip by itself, and when the response then has the
  \<open>Content-Encoding\<close> gzip (in any case of letters), the transport drops the
  \<open>Content-Encoding\<close> and the \<open>Content-Length\<close> header of the response and decodes
  its body. The response \<open>client.Do\<close> returns is otherwise the one the upstream sent.
\<close>

definition requestedGzip :: "(string \<Rightarrow> string) \<Rightarrow> request \<Rightarrow> bool" where
  "requestedGzip ck req \<longleftrightarrow>
     header_get ck (Header req) ''Accept-Encoding'' = []
     \<and> header_get ck (Header req) ''Range'' = []
     \<and> Method req \<noteq> ''HEAD''"

definition lowerASCII :: "char \<Rightarrow> char" where
  "lowerASCII c =
     (case map_of (zip ''ABCDEFGHIJKLMNOPQRSTUVWXYZ'' ''abcdefghijklmnopqrstuvwxyz'') c of
        Some l \<Rightarrow> l
      | None \<Rightarrow> c)"

definition equalFold :: "string \<Rightarrow> string \<Rightarrow> bool" where
  "equalFold s t \<longleftrightarrow> map lowerASCII s = map lowerASCII t"

definition gzipped :: "(string \<Rightarrow> string) \<Rightarrow> request \<Rightarrow> response \<Rightarrow> bool" where
  "gzipped ck req resp \<longleftrightarrow>
     requestedGzip ck req
     \<and> equalFold (header_get ck (respHeader resp) ''Content-Encoding'') ''gzip''"

definition client_Do :: "env \<Rightarrow> request \<Rightarrow> go_error + response" where
  "client_Do e req =
     (case roundTrip e req of
        Inl err \<Rightarrow> Inl err
      | Inr resp \<Rightarrow>
          if gzipped (canonicalKey e) req resp
          then Inr (resp\<lparr>respHeader :=
                           header_del (canonicalKey e)
                             (header_del (canonicalKey e) (respHeader resp) ''Content-Encoding'')
                             ''Content-Length'',
                         respBody := gunzip e (respBody resp)\<rparr>)
          else Inr resp)"

text \<open>
  \<^verbatim>\<open>req, err := http.NewRequest(r.Method, r.URL.String(), r.Body)
if err != nil {
    http.Error(w, "Invalid request", http.StatusBadRequest)
    return
}
req.Header = r.Header
resp, err := client.Do(req)
if err != nil {
    http.Error(w, "Failed to reach destination", http.StatusServiceUnavailable)
    return
}
defer resp.Body.Close()
copyHeader(w.Header(), resp.Header)
w.WriteHeader(resp.StatusCode)
io.Copy(w, resp.Body)\<close>
  \<open>client.Do\<close> is the one place where this handler's request reaches the dialer.
\<close>

definition handleHTTPProxy :: "env \<Rightarrow> request \<Rightarrow> world \<Rightarrow> world" where
  "handleHTTPProxy e r w =
     (case newRequest e (Method r) (URL r) (Body r) of
        Inl err \<Rightarrow> http_Error (canonicalKey e) ''Invalid request'' StatusBadRequest w
      | Inr req0 \<Rightarrow>
          (let req = req0\<lparr>Header := Header r\<rparr>;
               w1 = emit (ClientDo req) w in
           case client_Do e req of
             Inl err \<Rightarrow> http_Error (canonicalKey e) ''Failed to reach destination''
                          StatusServiceUnavailable w1
           | Inr resp \<Rightarrow>
               emit BodyClose
                 (let w2 = w1\<lparr>w_header := copyHeader (canonicalKey e) (w_header w1) (respHeader resp)\<rparr>;
                      w3 = emit (WriteHeader (w_header w2) (statusCode resp)) w2
                  in emit (CopyToWriter (respBody resp)) w3)))"

subsection \<open>The handler of the server\<close>

text \<open>The value of the challenge, \<open>Basic realm="Proxy"\<close>.\<close>

definition challenge :: string where
  "challenge = ''Basic realm='' @ [CHR 0x22] @ ''Proxy'' @ [CHR 0x22]"

definition MethodConnect :: string where "MethodConnect = ''CONNECT''"

text \<open>
  \<^verbatim>\<open>if !authenticate(r, authHeader) {
    w.Header().Set("Proxy-Authenticate", `Basic realm="Proxy"`)
    http.Error(w, "Proxy authentication required", http.StatusProxyAuthRequired)
    return
}
if r.Method == http.MethodConnect { handleHTTPSConnect(w, r, tunNet) }
else { handleHTTPProxy(w, r, tunNet) }\<close>
\<close>

definition handler :: "env \<Rightarrow> string \<Rightarrow> request \<Rightarrow> world \<Rightarrow> world" where
  "handler e authHeader r w =
     (if \<not> authenticate (canonicalKey e) r authHeader then
        http_Error (canonicalKey e) ''Proxy authentication required'' StatusProxyAuthRequired
          (w\<lparr>w_header := header_set (canonicalKey e) (w_header w) ''Proxy-Authenticate'' challenge\<rparr>)
      else if Method r = MethodConnect then handleHTTPSConnect e r w
      else handleHTTPProxy e r w)"

text \<open>A fresh response writer: no header set, nothing called yet.\<close>

definition fresh :: world where
  "fresh = \<lparr>w_header = [], log = []\<rparr>"

subsection \<open>The relay of a tunnel\<close>

text \<open>
  After the success line, \<open>handleHTTPSConnect\<close> runs
  \<^verbatim>\<open>go io.Copy(destConn, clientConn)
io.Copy(clientConn, destConn)\<close>
  and returns, running the two deferred closes, when the second call returns.
  \<open>io.Copy(dst, src)\<close> reads from \<open>src\<close> and writes to \<open>dst\<close> until a read on \<open>src\<close>
  ends (end of stream, or an error) or a write on \<open>dst\<close> fails. What the two peers do
  is a list of stream events, in the order they happen; the state says which of the
  two copies still runs, whether the handler has returned, and how often each
  connection has been closed by it.
\<close>

datatype side = ClientSide | DestSide

datatype stream_event =
    ReadEnds side
  | WriteFails side
  | Moved side nat

text \<open>Does this event end the copy that reads from \<open>src\<close> (and writes to the other side)?\<close>

fun copy_ends :: "side \<Rightarrow> stream_event \<Rightarrow> bool" where
  "copy_ends src (ReadEnds s) = (s = src)"
| "copy_ends src (WriteFails s) = (s \<noteq> src)"
| "copy_ends src (Moved s n) = False"

record relay =
  background :: bool
  foreground :: bool
  returned :: bool
  clientCloses :: nat
  destCloses :: nat

definition relay_start :: relay where
  "relay_start = \<lparr>background = True, foreground = True, returned = False,
                   clientCloses = 0, destCloses = 0\<rparr>"

text \<open>
  The goroutine copies from the client; its end changes nothing else. The handler copies
  from the destination; when that copy ends the handler returns, and the deferred
  \<open>clientConn.Close()\<close> and \<open>destConn.Close()\<close> run.
\<close>

definition relay_step :: "relay \<Rightarrow> stream_event \<Rightarrow> relay" where
  "relay_step s ev =
     (let s1 = (if background s \<and> copy_ends ClientSide ev then s\<lparr>background := False\<rparr> else s)
      in if foreground s1 \<and> copy_ends DestSide ev
         then s1\<lparr>foreground := False, returned := True,
                 clientCloses := Suc (clientCloses s1), destCloses := Suc (destCloses s1)\<rparr>
         else s1)"

definition relay_run :: "stream_event list \<Rightarrow> relay" where
  "relay_run evs = foldl relay_step relay_start evs"

text \<open>
  What every step keeps: the handler has returned exactly when its own copy has ended,
  and each connection has been closed once if it has returned, and not at all if not.
\<close>

definition relay_inv :: "relay \<Rightarrow> bool" where
  "relay_inv s \<longleftrightarrow>
     returned s = (\<not> foreground s)
     \<and> clientCloses s = (if returned s then 1 else 0)
     \<and> destCloses s = (if returned s then 1 else 0)"

subsection \<open>Reading a log\<close>

text \<open>
  The connections that the \<open>DialContext\<close> calls of a log opened, in order. These are the
  handler's own dials, of which only \<open>handleHTTPSConnect\<close> makes one. The dial that the
  client's transport makes inside \<open>client.Do\<close> is not among them: a log shows it as the
  \<open>ClientDo\<close> call (see \<open>is_dial\<close>), and no call of the handler ever names its
  connection.
\<close>

fun dialed :: "env \<Rightarrow> event list \<Rightarrow> conn list" where
  "dialed e [] = []"
| "dialed e (DialContext c n a # evs) =
     (case dialContext e c n a of Inr d \<Rightarrow> d # dialed e evs | Inl err \<Rightarrow> dialed e evs)"
| "dialed e (ev # evs) = dialed e evs"

text \<open>The client connections a log's successful hijacks took over.\<close>

fun hijacked :: "env \<Rightarrow> event list \<Rightarrow> conn list" where
  "hijacked e [] = []"
| "hijacked e (Hijack # evs) =
     (case hijacker e of Some (Inr c) \<Rightarrow> c # hijacked e evs | _ \<Rightarrow> hijacked e evs)"
| "hijacked e (ev # evs) = hijacked e evs"

text \<open>The response bodies a log's successful \<open>client.Do\<close> calls opened.\<close>

fun bodies :: "env \<Rightarrow> event list \<Rightarrow> bytes list" where
  "bodies e [] = []"
| "bodies e (ClientDo q # evs) =
     (case client_Do e q of Inr resp \<Rightarrow> respBody resp # bodies e evs | Inl err \<Rightarrow> bodies e evs)"
| "bodies e (ev # evs) = bodies e evs"

text \<open>The connections a log closes, in order.\<close>

fun closed :: "event list \<Rightarrow> conn list" where
  "closed [] = []"
| "closed (ConnClose c # evs) = c # closed evs"
| "closed (ev # evs) = closed evs"

text \<open>
  A log is balanced when it closes each connection as often as a dial or a hijack handed
  it over, closes a response body for each response obtained, and holds at most one
  dial and at most one response.
\<close>

definition balanced :: "env \<Rightarrow> event list \<Rightarrow> bool" where
  "balanced e lg \<longleftrightarrow>
     (\<forall>c. count_list (closed lg) c = count_list (dialed e lg) c + count_list (hijacked e lg) c)
     \<and> length (dialed e lg) \<le> 1
     \<and> count_list lg BodyClose = length (bodies e lg)
     \<and> length (bodies e lg) \<le> 1"

fun is_copy :: "event \<Rightarrow> bool" where
  "is_copy (GoCopy dst src) = True"
| "is_copy (Copy dst src) = True"
| "is_copy ev = False"

fun is_write :: "event \<Rightarrow> bool" where
  "is_write (ConnWrite c b) = True"
| "is_write ev = False"

fun is_dial :: "event \<Rightarrow> bool" where
  "is_dial (DialContext c n a) = True"
| "is_dial (ClientDo q) = True"
| "is_dial ev = False"

fun is_close :: "event \<Rightarrow> bool" where
  "is_close (ConnClose c) = True"
| "is_close ev = False"

text \<open>
  The log of a CONNECT session at the time when the peers of the tunnel have done \<open>evs\<close>.
  The log of \<open>handleHTTPSConnect\<close> is that of a handler that has returned. A session
  that never started a copy has returned at once. One that reached the relay stays in
  \<open>io.Copy(clientConn, destConn)\<close> until the relay returns, and the deferred closes,
  which come last in its log, have not run before: its log so far stops short of them.
\<close>

definition tunnel_log :: "env \<Rightarrow> request \<Rightarrow> stream_event list \<Rightarrow> event list" where
  "tunnel_log e r evs =
     (let lg = log (handleHTTPSConnect e r fresh)
      in if list_ex is_copy lg \<and> \<not> returned (relay_run evs)
         then takeWhile (\<lambda>ev. \<not> is_close ev) lg
         else lg)"

subsection \<open>Sample inputs\<close>

text \<open>
  The scenario of the documentation: the credentials \<open>alice\<close>/\<open>secret\<close>, a tunnel to
  \<open>example.test:443\<close>, and plain requests to \<open>example.test\<close>, which answers \<open>pong\<close>:
  as it is under \<open>/\<close>, and as a gzip stream under \<open>/gz\<close>.
\<close>

definition sample_token :: string where
  "sample_token = ''Basic YWxpY2U6c2VjcmV0''"

definition sample_response :: response where
  "sample_response =
     \<lparr>statusCode = 200,
      respHeader = [(''Content-Type'', [''text/plain'']), (''Set-Cookie'', [''a=1'', ''b=2''])],
      respBody = ''pong''\<rparr>"

text \<open>The 24 bytes of a gzip stream of \<open>pong\<close>.\<close>

definition gzip_pong :: bytes where
  "gzip_pong =
     [CHR 0x1F, CHR 0x8B, CHR 0x08, CHR 0x00, CHR 0x00, CHR 0x00, CHR 0x00, CHR 0x00,
      CHR 0x02, CHR 0x03, CHR 0x2B, CHR 0xC8, CHR 0xCF, CHR 0x4B, CHR 0x07, CHR 0x00,
      CHR 0x4F, CHR 0x41, CHR 0x58, CHR 0x21, CHR 0x04, CHR 0x00, CHR 0x00, CHR 0x00]"

definition gzip_response :: response where
  "gzip_response =
     \<lparr>statusCode = 200,
      respHeader = [(''Content-Encoding'', [''gzip'']), (''Content-Length'', [''24'']),
                    (''Content-Type'', [''text/plain''])],
      respBody = gzip_pong\<rparr>"

text \<open>
  The sample collaborators. Header keys are canonical already. The tunnel reaches
  \<open>example.test:443\<close> alone. The writer can be hijacked. \<open>url.Parse\<close> refuses a string with
  a control character, and the host of a URL \<open>http://host/path\<close> is what stands between
  \<open>http://\<close> and the next slash. The upstream answers under \<open>http://example.test/\<close> and
  \<open>http://example.test/gz\<close>, and nothing else can be reached.
\<close>

definition control_chars :: "char list" where
  "control_chars =
     [CHR 0x00, CHR 0x01, CHR 0x02, CHR 0x03, CHR 0x04, CHR 0x05, CHR 0x06, CHR 0x07,
      CHR 0x08, CHR 0x09, CHR 0x0A, CHR 0x0B, CHR 0x0C, CHR 0x0D, CHR 0x0E, CHR 0x0F,
      CHR 0x10, CHR 0x11, CHR 0x12, CHR 0x13, CHR 0x14, CHR 0x15, CHR 0x16, CHR 0x17,
      CHR 0x18, CHR 0x19, CHR 0x1A, CHR 0x1B, CHR 0x1C, CHR 0x1D, CHR 0x1E, CHR 0x1F,
      CHR 0x7F]"

definition sample_env :: env where
  "sample_env =
     \<lparr>canonicalKey = (\<lambda>k. k),
      dialContext = (\<lambda>c n a. if n = ''tcp'' \<and> a = ''example.test:443''
                                then Inr (Conn 1) else Inl (GoError ''unreachable'')),
      hijacker = Some (Inr (Conn 2)),
      connWrite = (\<lambda>c b. (length b, None)),
      urlParseError = (\<lambda>u. if list_ex (\<lambda>c. c \<in> set control_chars) u
                             then Some (GoError ''net/url: invalid control character in URL'')
                             else None),
      urlHost = (\<lambda>u. takeWhile (\<lambda>c. c \<noteq> CHR ''/'') (drop 7 u)),
      roundTrip = (\<lambda>q. if URL q = ''http://example.test/'' then Inr sample_response
                          else if URL q = ''http://example.test/gz'' then Inr gzip_response
                          else Inl (GoError ''unreachable'')),
      gunzip = (\<lambda>b. if b = gzip_pong then ''pong'' else [])\<rparr>"

definition connect_request :: request where
  "connect_request =
     \<lparr>Method = ''CONNECT'', URL = ''//example.test:443'', Host = ''example.test:443'',
      Header = [(''Proxy-Authorization'', [sample_token])], Body = [],
      ctx = RequestContext 1\<rparr>"

definition get_request :: request where
  "get_request =
     \<lparr>Method = ''GET'', URL = ''http://example.test/'', Host = ''example.test'',
      Header = [(''Accept'', [''*/*'']), (''Proxy-Authorization'', [sample_token])],
      Body = [], ctx = RequestContext 2\<rparr>"

section \<open>The log of each path\<close>

text \<open>
  Each handler has a handful of paths, chosen by the answers of the collaborators. The
  lemmas below give the world each path ends in; the properties of the handlers follow
  from them by cases.
\<close>

lemma connect_dial_failed:
  assumes "dialContext e (ctx r) ''tcp'' (Host r) = Inl err"
  shows "handleHTTPSConnect e r w =
           w\<lparr>w_header := error_header (canonicalKey e) (w_header w),
             log := log w @ [DialContext (ctx r) ''tcp'' (Host r),
                              HttpError (w_header w) ''Unable to connect to destination'' 503]\<rparr>"
  using assms
  by (simp add: handleHTTPSConnect_def http_Error_def emit_def StatusServiceUnavailable_def)

lemma connect_not_hijacker:
  assumes "dialContext e (ctx r) ''tcp'' (Host r) = Inr d" and "hijacker e = None"
  shows "handleHTTPSConnect e r w =
           w\<lparr>w_header := error_header (canonicalKey e) (w_header w),
             log := log w @ [DialContext (ctx r) ''tcp'' (Host r),
                              HttpError (w_header w) ''Hijacking not supported'' 500,
                              ConnClose d]\<rparr>"
  using assms
  by (simp add: handleHTTPSConnect_def http_Error_def emit_def StatusInternalServerError_def)

lemma connect_hijack_failed:
  assumes "dialContext e (ctx r) ''tcp'' (Host r) = Inr d" and "hijacker e = Some (Inl err)"
  shows "handleHTTPSConnect e r w =
           w\<lparr>w_header := error_header (canonicalKey e) (w_header w),
             log := log w @ [DialContext (ctx r) ''tcp'' (Host r), Hijack,
                              HttpError (w_header w) ''Hijacking failed'' 500,
                              ConnClose d]\<rparr>"
  using assms
  by (simp add: handleHTTPSConnect_def http_Error_def emit_def StatusInternalServerError_def)

lemma connect_established:
  assumes "dialContext e (ctx r) ''tcp'' (Host r) = Inr d" and "hijacker e = Some (Inr c)"
  shows "handleHTTPSConnect e r w =
           w\<lparr>log := log w @ [DialContext (ctx r) ''tcp'' (Host r), Hijack,
                              ConnWrite c success_line, GoCopy d c, Copy c d,
                              ConnClose c, ConnClose d]\<rparr>"
  using assms
  by (simp add: handleHTTPSConnect_def emit_def Let_def)

lemma forward_invalid:
  assumes "newRequest e (Method r) (URL r) (Body r) = Inl err"
  shows "handleHTTPProxy e r w =
           w\<lparr>w_header := error_header (canonicalKey e) (w_header w),
             log := log w @ [HttpError (w_header w) ''Invalid request'' 400]\<rparr>"
  using assms
  by (simp add: handleHTTPProxy_def http_Error_def emit_def StatusBadRequest_def)

lemma forward_unreachable:
  assumes "newRequest e (Method r) (URL r) (Body r) = Inr req0"
    and "client_Do e (req0\<lparr>Header := Header r\<rparr>) = Inl err"
  shows "handleHTTPProxy e r w =
           w\<lparr>w_header := error_header (canonicalKey e) (w_header w),
             log := log w @ [ClientDo (req0\<lparr>Header := Header r\<rparr>),
                              HttpError (w_header w) ''Failed to reach destination'' 503]\<rparr>"
  using assms
  by (simp add: handleHTTPProxy_def http_Error_def emit_def Let_def StatusServiceUnavailable_def)

lemma forward_response:
  assumes "newRequest e (Method r) (URL r) (Body r) = Inr req0"
    and "client_Do e (req0\<lparr>Header := Header r\<rparr>) = Inr resp"
  shows "handleHTTPProxy e r w =
           w\<lparr>w_header := copyHeader (canonicalKey e) (w_header w) (respHeader resp),
             log := log w @
               [ClientDo (req0\<lparr>Header := Header r\<rparr>),
                WriteHeader (copyHeader (canonicalKey e) (w_header w) (respHeader resp))
                  (statusCode resp),
                CopyToWriter (respBody resp), BodyClose]\<rparr>"
  using assms
  by (simp add: handleHTTPProxy_def emit_def Let_def)

lemma handler_rejected:
  assumes "\<not> authenticate (canonicalKey e) r tok"
  shows "handler e tok r w =
           w\<lparr>w_header := error_header (canonicalKey e)
                (header_set (canonicalKey e) (w_header w) ''Proxy-Authenticate'' challenge),
             log := log w @
               [HttpError (header_set (canonicalKey e) (w_header w) ''Proxy-Authenticate'' challenge)
                  ''Proxy authentication required'' 407]\<rparr>"
  using assms
  by (simp add: handler_def http_Error_def emit_def StatusProxyAuthRequired_def)

lemma handler_accepted:
  assumes "authenticate (canonicalKey e) r tok"
  shows "handler e tok r w =
           (if Method r = MethodConnect then handleHTTPSConnect e r w else handleHTTPProxy e r w)"
  using assms by (simp add: handler_def)

subsection \<open>The request the forward handler builds\<close>

lemma validMethod_nonempty: "validMethod m \<Longrightarrow> m \<noteq> []"
  by (simp add: validMethod_def)

lemma newRequest_built:
  assumes "validMethod m" and "urlParseError e u = None"
  shows "newRequest e m u b =
           Inr \<lparr>Method = m, URL = u, Host = urlHost e u, Header = [], Body = b,
                ctx = Background\<rparr>"
  using assms by (simp add: newRequest_def validMethod_def)

lemma newRequest_refused:
  assumes "(m \<noteq> [] \<and> \<not> validMethod m) \<or> urlParseError e u \<noteq> None"
  shows "\<exists>err. newRequest e m u b = Inl err"
  using assms by (auto simp add: newRequest_def Let_def)

lemma client_Do_fails: "(\<exists>err. client_Do e q = Inl err) \<longleftrightarrow> (\<exists>err. roundTrip e q = Inl err)"
  by (auto simp add: client_Do_def split: sum.splits)

subsection \<open>Header maps\<close>

lemma header_values_set:
  "header_values (header_set ck h k v) k' = (if k' = ck k then [v] else header_values h k')"
  by (simp add: header_values_def header_set_def AList.update_conv')






subsection \<open>The sample inputs\<close>

lemmas sample_defs = sample_env_def sample_token_def sample_response_def connect_request_def
  get_request_def fresh_def MethodConnect_def

lemma sample_authenticated:
  "authenticate (canonicalKey sample_env) connect_request sample_token"
  "authenticate (canonicalKey sample_env) get_request sample_token"
  by (simp_all add: authenticate_def header_get_def header_values_def sample_defs)

lemma sample_valid: "validMethod ''GET''" "\<not> validMethod ''GE T''"
  by (simp_all add: validMethod_def isTokenRune_def)

lemma sample_parses:
  "urlParseError sample_env ''http://example.test/'' = None"
  "urlParseError sample_env ''http://example.test/gz'' = None"
  "urlParseError sample_env ''http://nowhere.test/'' = None"
  by (simp_all add: sample_env_def control_chars_def)

lemma sample_connect_log:
  "log (handler sample_env sample_token connect_request fresh) =
     [DialContext (RequestContext 1) ''tcp'' ''example.test:443'', Hijack,
      ConnWrite (Conn 2) success_line, GoCopy (Conn 1) (Conn 2), Copy (Conn 2) (Conn 1),
      ConnClose (Conn 2), ConnClose (Conn 1)]"
proof -
  have d: "dialContext sample_env (ctx connect_request) ''tcp'' (Host connect_request) =
             Inr (Conn 1)"
    by (simp add: sample_defs)
  have h: "hijacker sample_env = Some (Inr (Conn 2))"
    by (simp add: sample_defs)
  have "handler sample_env sample_token connect_request fresh =
          handleHTTPSConnect sample_env connect_request fresh"
    by (simp add: handler_accepted sample_authenticated) (simp add: sample_defs)
  then show ?thesis
    by (simp add: connect_established [OF d h]) (simp add: sample_defs)
qed

section \<open>The credential gate\<close>

text \<open>
  C1. With an empty token (no credentials configured), is every request accepted, whatever
  its \<open>Proxy-Authorization\<close> header? The flags say that authentication is enabled only
  when both a user name and a password are given, but \<open>authenticate\<close> compares the
  header with the token in every case: with the empty token, a request that presents a
  header is refused. Evaluated here on the sample request, which carries \<open>alice\<close>'s
  credentials, against a proxy without credentials: the answer is the 407 reply, and no
  handler runs.
\<close>

theorem empty_token_rejects_presented_header:
  "\<not> authenticate (canonicalKey sample_env) get_request []
   \<and> log (handler sample_env [] get_request fresh) =
       [HttpError [(''Proxy-Authenticate'', [challenge])] ''Proxy authentication required'' 407]"
proof -
  have a: "\<not> authenticate (canonicalKey sample_env) get_request []"
    by (simp add: authenticate_def header_get_def header_values_def sample_defs)
  show ?thesis
    using a by (simp add: handler_rejected header_set_def) (simp add: sample_defs)
qed

text \<open>
  C2. With a non-empty token, \<open>authenticate\<close> accepts a request exactly when the header
  map has \<open>Proxy-Authorization\<close> and its first value is the token, byte for byte. When it
  refuses, the handler sets \<open>Proxy-Authenticate\<close> to \<open>Basic realm="Proxy"\<close>, the challenge
  that names the realm \<open>Proxy\<close>, and calls \<open>http.Error\<close> with the status 407; that call is
  all it adds to the log, so neither \<open>handleHTTPSConnect\<close> nor \<open>handleHTTPProxy\<close> runs and
  nothing is dialed. The challenge is in the header map at the call, and still there
  after \<open>http.Error\<close> has set its own headers, in the map it sends. The keys the code
  names are written in canonical form.
\<close>

theorem authenticate_nonempty_token:
  assumes "expectedAuth \<noteq> []"
    and "canonicalKey e ''Proxy-Authorization'' = ''Proxy-Authorization''"
    and "canonicalKey e ''Proxy-Authenticate'' = ''Proxy-Authenticate''"
    and "canonicalKey e ''Content-Length'' = ''Content-Length''"
    and "canonicalKey e ''Content-Type'' = ''Content-Type''"
    and "canonicalKey e ''X-Content-Type-Options'' = ''X-Content-Type-Options''"
  shows "(authenticate (canonicalKey e) r expectedAuth \<longleftrightarrow>
           (\<exists>vs. map_of (Header r) ''Proxy-Authorization'' = Some (expectedAuth # vs)))
       \<and> (\<not> authenticate (canonicalKey e) r expectedAuth \<longrightarrow>
           (\<exists>h. log (handler e expectedAuth r w) =
                  log w @ [HttpError h ''Proxy authentication required'' 407]
              \<and> map_of h ''Proxy-Authenticate'' =
                  Some [''Basic realm='' @ [CHR 0x22] @ ''Proxy'' @ [CHR 0x22]]
              \<and> map_of (w_header (handler e expectedAuth r w)) ''Proxy-Authenticate'' =
                  Some [''Basic realm='' @ [CHR 0x22] @ ''Proxy'' @ [CHR 0x22]]))"
proof (intro conjI impI)
  show "authenticate (canonicalKey e) r expectedAuth \<longleftrightarrow>
           (\<exists>vs. map_of (Header r) ''Proxy-Authorization'' = Some (expectedAuth # vs))"
    using assms(1,2)
    by (auto simp: authenticate_def header_get_def header_values_def
             split: option.splits list.splits)
next
  assume no: "\<not> authenticate (canonicalKey e) r expectedAuth"
  let ?h = "header_set (canonicalKey e) (w_header w) ''Proxy-Authenticate'' challenge"
  have at_call: "map_of ?h ''Proxy-Authenticate'' =
                   Some [''Basic realm='' @ [CHR 0x22] @ ''Proxy'' @ [CHR 0x22]]"
    using assms(3) by (simp add: header_set_def AList.update_conv' challenge_def)
  have sent: "map_of (error_header (canonicalKey e) ?h) ''Proxy-Authenticate'' =
                map_of ?h ''Proxy-Authenticate''"
    using assms(3-6)
    by (simp add: error_header_def header_set_def header_del_def
          AList.update_conv' AList.delete_conv')
  show "\<exists>h. log (handler e expectedAuth r w) =
                  log w @ [HttpError h ''Proxy authentication required'' 407]
              \<and> map_of h ''Proxy-Authenticate'' =
                  Some [''Basic realm='' @ [CHR 0x22] @ ''Proxy'' @ [CHR 0x22]]
              \<and> map_of (w_header (handler e expectedAuth r w)) ''Proxy-Authenticate'' =
                  Some [''Basic realm='' @ [CHR 0x22] @ ''Proxy'' @ [CHR 0x22]]"
    using at_call sent
    by (intro exI [of _ ?h]) (simp add: handler_rejected [OF no])
qed

text \<open>
  The sample request is accepted with \<open>alice\<close>'s token; stripped of its headers it is
  refused: the log is the 407 reply alone, and the header map sent holds the challenge
  next to the two headers of \<open>http.Error\<close>.
\<close>

theorem authenticate_nonempty_token_witness:
  "sample_token \<noteq> []
   \<and> canonicalKey sample_env ''Proxy-Authorization'' = ''Proxy-Authorization''
   \<and> canonicalKey sample_env ''Proxy-Authenticate'' = ''Proxy-Authenticate''
   \<and> canonicalKey sample_env ''Content-Length'' = ''Content-Length''
   \<and> canonicalKey sample_env ''Content-Type'' = ''Content-Type''
   \<and> canonicalKey sample_env ''X-Content-Type-Options'' = ''X-Content-Type-Options''
   \<and> authenticate (canonicalKey sample_env) get_request sample_token
   \<and> \<not> authenticate (canonicalKey sample_env) (get_request\<lparr>Header := []\<rparr>) sample_token
   \<and> log (handler sample_env sample_token (get_request\<lparr>Header := []\<rparr>) fresh) =
       [HttpError [(''Proxy-Authenticate'', [''Basic realm='' @ [CHR 0x22] @ ''Proxy'' @ [CHR 0x22]])]
          ''Proxy authentication required'' 407]
   \<and> w_header (handler sample_env sample_token (get_request\<lparr>Header := []\<rparr>) fresh) =
       [(''Proxy-Authenticate'', [''Basic realm='' @ [CHR 0x22] @ ''Proxy'' @ [CHR 0x22]]),
        (''Content-Type'', [''text/plain; charset=utf-8'']),
        (''X-Content-Type-Options'', [''nosniff''])]"
proof -
  have t: "sample_token \<noteq> []" by (simp add: sample_defs)
  have k: "canonicalKey sample_env ''Proxy-Authorization'' = ''Proxy-Authorization''"
    "canonicalKey sample_env ''Proxy-Authenticate'' = ''Proxy-Authenticate''"
    "canonicalKey sample_env ''Content-Length'' = ''Content-Length''"
    "canonicalKey sample_env ''Content-Type'' = ''Content-Type''"
    "canonicalKey sample_env ''X-Content-Type-Options'' = ''X-Content-Type-Options''"
    by (simp_all add: sample_defs)
  have yes: "authenticate (canonicalKey sample_env) get_request sample_token"
    using authenticate_nonempty_token [OF t k, of get_request fresh]
    by (simp add: get_request_def)
  have no: "\<not> authenticate (canonicalKey sample_env) (get_request\<lparr>Header := []\<rparr>) sample_token"
    using authenticate_nonempty_token [OF t k, of "get_request\<lparr>Header := []\<rparr>" fresh]
    by simp
  have lg: "log (handler sample_env sample_token (get_request\<lparr>Header := []\<rparr>) fresh) =
       [HttpError [(''Proxy-Authenticate'', [''Basic realm='' @ [CHR 0x22] @ ''Proxy'' @ [CHR 0x22]])]
          ''Proxy authentication required'' 407]"
    by (simp add: handler_rejected [OF no] header_set_def challenge_def)
       (simp add: sample_defs)
  have hd: "w_header (handler sample_env sample_token (get_request\<lparr>Header := []\<rparr>) fresh) =
       [(''Proxy-Authenticate'', [''Basic realm='' @ [CHR 0x22] @ ''Proxy'' @ [CHR 0x22]]),
        (''Content-Type'', [''text/plain; charset=utf-8'']),
        (''X-Content-Type-Options'', [''nosniff''])]"
    by (simp add: handler_rejected [OF no] error_header_def header_set_def header_del_def
          challenge_def)
       (simp add: sample_defs)
  from t k yes no lg hd show ?thesis by simp
qed

section \<open>The relay\<close>

lemma relay_step_returned:
  "returned (relay_step s ev) \<longleftrightarrow> returned s \<or> (foreground s \<and> copy_ends DestSide ev)"
  by (auto simp add: relay_step_def Let_def)

lemma relay_step_foreground:
  "foreground (relay_step s ev) \<longleftrightarrow> foreground s \<and> \<not> copy_ends DestSide ev"
  by (auto simp add: relay_step_def Let_def)

lemma relay_step_closes:
  "clientCloses (relay_step s ev) =
     (if foreground s \<and> copy_ends DestSide ev then Suc (clientCloses s) else clientCloses s)"
  "destCloses (relay_step s ev) =
     (if foreground s \<and> copy_ends DestSide ev then Suc (destCloses s) else destCloses s)"
  by (auto simp add: relay_step_def Let_def)

lemma relay_inv_step: "relay_inv s \<Longrightarrow> relay_inv (relay_step s ev)"
  by (auto simp add: relay_inv_def relay_step_returned relay_step_foreground relay_step_closes)

lemma relay_foldl:
  "relay_inv s \<Longrightarrow>
     relay_inv (foldl relay_step s evs)
     \<and> (returned (foldl relay_step s evs) \<longleftrightarrow>
          returned s \<or> (\<exists>ev\<in>set evs. copy_ends DestSide ev))"
proof (induction evs arbitrary: s)
  case Nil
  then show ?case by simp
next
  case (Cons ev evs)
  have inv: "relay_inv (relay_step s ev)"
    using Cons.prems by (rule relay_inv_step)
  from Cons.IH [OF inv] Cons.prems show ?case
    by (auto simp add: relay_step_returned relay_inv_def)
qed

text \<open>
  C3, as stated: once either side has closed its stream, so that a read on its
  connection has ended, the relay has returned and the other side's connection is
  closed. It fails when the client is the one that closes: the goroutine's copy ends,
  the handler stays in its own copy, which reads from the destination, and the
  destination's connection is not closed.
\<close>

theorem relay_client_close_counterexample:
  "ReadEnds ClientSide \<in> set [ReadEnds ClientSide]
   \<and> \<not> background (relay_run [ReadEnds ClientSide])
   \<and> foreground (relay_run [ReadEnds ClientSide])
   \<and> \<not> returned (relay_run [ReadEnds ClientSide])
   \<and> destCloses (relay_run [ReadEnds ClientSide]) = 0"
  by (simp add: relay_run_def relay_step_def relay_start_def)

text \<open>
  C3, amended: the relay has returned exactly when the copy from the destination to the
  client has ended (a read on the destination's connection ended, or a write to the
  client failed), whether or not the copy from the client to the destination is still
  running; it has then closed both connections, once each, and before that it has
  closed neither. The end of the goroutine's copy, when the client closes its stream,
  does not by itself make the relay return.
\<close>

theorem relay_returns_with_destination_copy:
  "(returned (relay_run evs) \<longleftrightarrow> (\<exists>ev\<in>set evs. copy_ends DestSide ev))
   \<and> clientCloses (relay_run evs) = (if returned (relay_run evs) then 1 else 0)
   \<and> destCloses (relay_run evs) = (if returned (relay_run evs) then 1 else 0)"
proof -
  have "relay_inv relay_start"
    by (simp add: relay_inv_def relay_start_def)
  from relay_foldl [OF this, of evs]
  have "relay_inv (relay_run evs)"
    and "returned (relay_run evs) \<longleftrightarrow> (\<exists>ev\<in>set evs. copy_ends DestSide ev)"
    by (simp_all add: relay_run_def relay_start_def)
  then show ?thesis
    unfolding relay_inv_def by blast
qed

text \<open>
  The destination closes while the client is still sending: the relay returns, both
  connections are closed once, and the goroutine's copy has not ended.
\<close>

theorem relay_returns_with_destination_copy_witness:
  "(\<exists>ev\<in>set [Moved ClientSide 4, ReadEnds DestSide]. copy_ends DestSide ev)
   \<and> returned (relay_run [Moved ClientSide 4, ReadEnds DestSide])
   \<and> background (relay_run [Moved ClientSide 4, ReadEnds DestSide])
   \<and> clientCloses (relay_run [Moved ClientSide 4, ReadEnds DestSide]) = 1
   \<and> destCloses (relay_run [Moved ClientSide 4, ReadEnds DestSide]) = 1"
  using relay_returns_with_destination_copy [of "[Moved ClientSide 4, ReadEnds DestSide]"]
  by (simp add: relay_run_def relay_step_def relay_start_def)

section \<open>Closing what was opened\<close>

lemma sample_get_log:
  "log (handler sample_env sample_token get_request fresh) =
     [ClientDo (get_request\<lparr>ctx := Background\<rparr>),
      WriteHeader (respHeader sample_response) 200, CopyToWriter ''pong'', BodyClose]"
proof -
  have n: "newRequest sample_env (Method get_request) (URL get_request) (Body get_request) =
             Inr (get_request\<lparr>Header := [], ctx := Background\<rparr>)"
    by (simp add: newRequest_def validMethod_def isTokenRune_def sample_defs control_chars_def)
  have c: "client_Do sample_env
             (get_request\<lparr>Header := [], ctx := Background\<rparr>\<lparr>Header := Header get_request\<rparr>) =
             Inr sample_response"
    by (simp add: client_Do_def gzipped_def requestedGzip_def equalFold_def lowerASCII_def
          header_get_def header_values_def sample_defs)
  have "handler sample_env sample_token get_request fresh =
          handleHTTPProxy sample_env get_request fresh"
    by (simp add: handler_accepted sample_authenticated) (simp add: sample_defs)
  then show ?thesis
    by (simp add: forward_response [OF n c])
       (simp add: sample_defs header_add_def header_values_def)
qed

lemma connect_balanced: "balanced e (log (handleHTTPSConnect e r fresh))"
proof (cases "dialContext e (ctx r) ''tcp'' (Host r)")
  case (Inl err)
  then show ?thesis
    by (simp add: connect_dial_failed balanced_def fresh_def)
next
  case dial: (Inr d)
  show ?thesis
  proof (cases "hijacker e")
    case None
    with dial show ?thesis
      by (simp add: connect_not_hijacker balanced_def fresh_def)
  next
    case (Some hj)
    show ?thesis
    proof (cases hj)
      case (Inl err)
      with dial Some show ?thesis
        by (simp add: connect_hijack_failed balanced_def fresh_def)
    next
      case (Inr c)
      with dial Some show ?thesis
        by (simp add: connect_established balanced_def fresh_def)
    qed
  qed
qed

lemma forward_balanced:
  "balanced e (log (handleHTTPProxy e r fresh)) \<and> closed (log (handleHTTPProxy e r fresh)) = []"
proof (cases "newRequest e (Method r) (URL r) (Body r)")
  case (Inl err)
  then show ?thesis
    by (simp add: forward_invalid balanced_def fresh_def)
next
  case new: (Inr req0)
  show ?thesis
  proof (cases "client_Do e (req0\<lparr>Header := Header r\<rparr>)")
    case (Inl err)
    with new show ?thesis
      by (simp add: forward_unreachable balanced_def fresh_def)
  next
    case (Inr resp)
    with new show ?thesis
      by (simp add: forward_response balanced_def fresh_def)
  qed
qed

lemma handler_balanced: "balanced e (log (handler e tok r fresh))"
proof (cases "authenticate (canonicalKey e) r tok")
  case False
  then show ?thesis
    by (simp add: handler_rejected balanced_def fresh_def)
next
  case True
  then show ?thesis
    using connect_balanced [of e r] forward_balanced [of e r]
    by (simp add: handler_accepted)
qed

lemma tunnel_log_returned:
  "returned (relay_run evs) \<Longrightarrow> tunnel_log e r evs = log (handleHTTPSConnect e r fresh)"
  by (simp add: tunnel_log_def)

lemma tunnel_log_relaying:
  assumes "dialContext e (ctx r) ''tcp'' (Host r) = Inr d" and "hijacker e = Some (Inr c)"
    and "\<not> returned (relay_run evs)"
  shows "tunnel_log e r evs =
           [DialContext (ctx r) ''tcp'' (Host r), Hijack, ConnWrite c success_line,
            GoCopy d c, Copy c d]"
  using assms(3)
  by (simp add: tunnel_log_def connect_established [OF assms(1,2)] fresh_def)

text \<open>
  C4, as stated: on every exit path, the client's disconnect among them, each
  destination connection that was opened is closed exactly once. In the sample tunnel,
  after the client alone has closed its stream, the relay has not returned: connection 1
  was dialed and the session's log closes it zero times. On the forward path, the sample
  plain request goes through \<open>client.Do\<close>, which dials the destination, and comes back
  with its response; the handler's log closes the response body and no connection.
\<close>

theorem destination_left_open_counterexample:
  "\<not> returned (relay_run [ReadEnds ClientSide])
   \<and> dialed sample_env (tunnel_log sample_env connect_request [ReadEnds ClientSide]) = [Conn 1]
   \<and> count_list (closed (tunnel_log sample_env connect_request [ReadEnds ClientSide])) (Conn 1) = 0
   \<and> list_ex is_dial (log (handler sample_env sample_token get_request fresh))
   \<and> bodies sample_env (log (handler sample_env sample_token get_request fresh)) = [''pong'']
   \<and> closed (log (handler sample_env sample_token get_request fresh)) = []"
proof -
  have n: "\<not> returned (relay_run [ReadEnds ClientSide])"
    by (simp add: relay_run_def relay_step_def relay_start_def)
  have d: "dialContext sample_env (ctx connect_request) ''tcp'' (Host connect_request) =
             Inr (Conn 1)"
    by (simp add: sample_defs)
  have h: "hijacker sample_env = Some (Inr (Conn 2))"
    by (simp add: sample_defs)
  have c: "client_Do sample_env (get_request\<lparr>ctx := Background\<rparr>) = Inr sample_response"
    by (simp add: client_Do_def gzipped_def requestedGzip_def equalFold_def lowerASCII_def
          header_get_def header_values_def sample_defs)
  show ?thesis
    using n d c
    by (simp add: tunnel_log_relaying [OF d h n] sample_get_log)
       (simp add: sample_response_def)
qed

text \<open>
  C4, amended. For every execution in which the handler returns (the 407 reply, a failed
  dial, a writer that cannot be hijacked, a failed hijack, a relay that has returned, a
  request that cannot be built, an upstream that cannot be reached, a forwarded
  response): the log closes each connection as often as a dial of the handler or the
  hijack handed it over; the handler dials at most once, so the destination connection
  it dialed, which is not the hijacked one, is closed exactly once; and the log closes
  a response body once for each response that \<open>client.Do\<close> returned, of which there is at
  most one. A tunnel whose relay has not returned, as after the client alone has closed
  its stream, has dialed its destination connection and closed nothing; once the relay
  has returned its log is that of the returned handler. The forward handler closes no
  connection: the one that \<open>client.Do\<close> dials is left to the client's transport.
\<close>

theorem returned_handler_closes_once:
  fixes e :: env and tok :: string and r :: request
  defines "lg \<equiv> log (handler e tok r fresh)"
  shows "(\<forall>c. count_list (closed lg) c =
               count_list (dialed e lg) c + count_list (hijacked e lg) c)
       \<and> (\<forall>d\<in>set (dialed e lg). d \<notin> set (hijacked e lg) \<longrightarrow> count_list (closed lg) d = 1)
       \<and> length (dialed e lg) \<le> 1
       \<and> count_list lg BodyClose = length (bodies e lg)
       \<and> length (bodies e lg) \<le> 1
       \<and> closed (log (handleHTTPProxy e r fresh)) = []
       \<and> (\<forall>evs. returned (relay_run evs) \<longrightarrow>
             tunnel_log e r evs = log (handleHTTPSConnect e r fresh))
       \<and> (\<forall>evs d c. dialContext e (ctx r) ''tcp'' (Host r) = Inr d \<longrightarrow>
             hijacker e = Some (Inr c) \<longrightarrow> \<not> returned (relay_run evs) \<longrightarrow>
             dialed e (tunnel_log e r evs) = [d] \<and> closed (tunnel_log e r evs) = [])"
proof -
  have b: "balanced e lg"
    unfolding lg_def by (rule handler_balanced)
  then have all: "\<forall>c. count_list (closed lg) c =
                       count_list (dialed e lg) c + count_list (hijacked e lg) c"
    and one: "length (dialed e lg) \<le> 1"
    and rest: "count_list lg BodyClose = length (bodies e lg)" "length (bodies e lg) \<le> 1"
    by (simp_all add: balanced_def)
  have once: "count_list (closed lg) d = 1"
    if d: "d \<in> set (dialed e lg)" "d \<notin> set (hijacked e lg)" for d
  proof -
    from one d(1) have "dialed e lg = [d]"
      by (cases "dialed e lg") auto
    with all d(2) show ?thesis
      by (simp add: count_list_0_iff)
  qed
  have fwd: "closed (log (handleHTTPProxy e r fresh)) = []"
    using forward_balanced [of e r] by simp
  have ret: "tunnel_log e r evs = log (handleHTTPSConnect e r fresh)"
    if "returned (relay_run evs)" for evs
    using that by (rule tunnel_log_returned)
  have run: "dialed e (tunnel_log e r evs) = [d] \<and> closed (tunnel_log e r evs) = []"
    if "dialContext e (ctx r) ''tcp'' (Host r) = Inr d" "hijacker e = Some (Inr c)"
      "\<not> returned (relay_run evs)" for evs d c
    using that by (simp add: tunnel_log_relaying)
  from all once one rest fwd ret run show ?thesis by blast
qed

text \<open>
  The sample tunnel, once the destination has closed its stream: connection 1 is dialed,
  connection 2 is hijacked, and the log closes connection 1 once. The sample plain
  request: one response body, closed once, and no connection closed.
\<close>

theorem returned_handler_closes_once_witness:
  "returned (relay_run [ReadEnds DestSide])
   \<and> tunnel_log sample_env connect_request [ReadEnds DestSide] =
       log (handler sample_env sample_token connect_request fresh)
   \<and> dialed sample_env (log (handler sample_env sample_token connect_request fresh)) = [Conn 1]
   \<and> Conn 1 \<notin> set (hijacked sample_env (log (handler sample_env sample_token connect_request fresh)))
   \<and> count_list (closed (log (handler sample_env sample_token connect_request fresh))) (Conn 1) = 1
   \<and> bodies sample_env (log (handler sample_env sample_token get_request fresh)) = [''pong'']
   \<and> count_list (log (handler sample_env sample_token get_request fresh)) BodyClose = 1"
proof -
  have r: "returned (relay_run [ReadEnds DestSide])"
    by (simp add: relay_run_def relay_step_def relay_start_def)
  have same: "handler sample_env sample_token connect_request fresh =
                handleHTTPSConnect sample_env connect_request fresh"
    by (simp add: handler_accepted sample_authenticated) (simp add: sample_defs)
  have d: "dialed sample_env (log (handler sample_env sample_token connect_request fresh)) = [Conn 1]"
    by (simp add: sample_connect_log) (simp add: sample_defs)
  have h: "hijacked sample_env (log (handler sample_env sample_token connect_request fresh)) = [Conn 2]"
    by (simp add: sample_connect_log) (simp add: sample_defs)
  have c: "client_Do sample_env (get_request\<lparr>ctx := Background\<rparr>) = Inr sample_response"
    by (simp add: client_Do_def gzipped_def requestedGzip_def equalFold_def lowerASCII_def
          header_get_def header_values_def sample_defs)
  have b: "bodies sample_env (log (handler sample_env sample_token get_request fresh)) = [''pong'']"
    using c by (simp add: sample_get_log) (simp add: sample_response_def)
  note t1 = returned_handler_closes_once [of sample_env sample_token connect_request]
  note t2 = returned_handler_closes_once [of sample_env sample_token get_request]
  from t1 r have "tunnel_log sample_env connect_request [ReadEnds DestSide] =
       log (handler sample_env sample_token connect_request fresh)"
    unfolding same by blast
  moreover from t1 d h
  have "count_list (closed (log (handler sample_env sample_token connect_request fresh))) (Conn 1) = 1"
    by simp
  moreover from t2 b
  have "count_list (log (handler sample_env sample_token get_request fresh)) BodyClose = 1"
    by simp
  ultimately show ?thesis
    using r d h b by simp
qed

section \<open>The CONNECT handler\<close>

text \<open>
  C5. In a CONNECT session whose dial and hijack succeed, the handler writes the bytes of
  \<open>HTTP/1.1 200 Connection Established\<close>, followed by two CR LF pairs, to the hijacked
  client connection. It is the only write of the session; no copy is started before it,
  and both copies of the relay are started after it, so no relayed byte precedes the
  success line.
\<close>

theorem success_line_before_relay:
  assumes "dialContext e (ctx r) ''tcp'' (Host r) = Inr d"
    and "hijacker e = Some (Inr c)"
  shows "\<exists>pre post.
           log (handleHTTPSConnect e r w) = log w @ pre @ [ConnWrite c success_line] @ post
         \<and> \<not> list_ex is_copy pre \<and> \<not> list_ex is_write pre
         \<and> \<not> list_ex is_write post
         \<and> post = [GoCopy d c, Copy c d, ConnClose c, ConnClose d]
         \<and> success_line =
             ''HTTP/1.1 200 Connection Established'' @ [CHR 0x0D, CHR 0x0A, CHR 0x0D, CHR 0x0A]"
proof (intro exI conjI)
  show "log (handleHTTPSConnect e r w) =
          log w @ [DialContext (ctx r) ''tcp'' (Host r), Hijack] @ [ConnWrite c success_line]
            @ [GoCopy d c, Copy c d, ConnClose c, ConnClose d]"
    by (simp add: connect_established [OF assms])
qed (simp_all add: success_line_def)

theorem success_line_before_relay_witness:
  "dialContext sample_env (ctx connect_request) ''tcp'' (Host connect_request) = Inr (Conn 1)
   \<and> hijacker sample_env = Some (Inr (Conn 2))
   \<and> (\<exists>pre. log (handleHTTPSConnect sample_env connect_request fresh) =
         pre @ [ConnWrite (Conn 2) success_line,
                GoCopy (Conn 1) (Conn 2), Copy (Conn 2) (Conn 1),
                ConnClose (Conn 2), ConnClose (Conn 1)]
        \<and> \<not> list_ex is_copy pre \<and> \<not> list_ex is_write pre)"
proof -
  have d: "dialContext sample_env (ctx connect_request) ''tcp'' (Host connect_request) =
             Inr (Conn 1)"
    by (simp add: sample_defs)
  have h: "hijacker sample_env = Some (Inr (Conn 2))"
    by (simp add: sample_defs)
  from success_line_before_relay [OF d h, of fresh]
  obtain pre post where
    "log (handleHTTPSConnect sample_env connect_request fresh) =
       log fresh @ pre @ [ConnWrite (Conn 2) success_line] @ post"
    "\<not> list_ex is_copy pre" "\<not> list_ex is_write pre"
    "post = [GoCopy (Conn 1) (Conn 2), Copy (Conn 2) (Conn 1), ConnClose (Conn 2), ConnClose (Conn 1)]"
    by blast
  then have "log (handleHTTPSConnect sample_env connect_request fresh) =
         pre @ [ConnWrite (Conn 2) success_line,
                GoCopy (Conn 1) (Conn 2), Copy (Conn 2) (Conn 1),
                ConnClose (Conn 2), ConnClose (Conn 1)]
        \<and> \<not> list_ex is_copy pre \<and> \<not> list_ex is_write pre"
    by (simp add: fresh_def)
  then have "\<exists>pre. log (handleHTTPSConnect sample_env connect_request fresh) =
         pre @ [ConnWrite (Conn 2) success_line,
                GoCopy (Conn 1) (Conn 2), Copy (Conn 2) (Conn 1),
                ConnClose (Conn 2), ConnClose (Conn 1)]
        \<and> \<not> list_ex is_copy pre \<and> \<not> list_ex is_write pre"
    by (rule exI)
  with d h show ?thesis by simp
qed

text \<open>
  C6. The handler's first call is the dial, with the request's context, the network
  \<open>tcp\<close> and \<open>r.Host\<close> as it is; it dials nothing else. If the dial fails, the handler
  replies 503 and returns: the log ends there, with no hijack, no write and no copy.
\<close>

theorem connect_dials_request_host:
  "(\<exists>rest. log (handleHTTPSConnect e r w) =
             log w @ DialContext (ctx r) ''tcp'' (Host r) # rest
           \<and> \<not> list_ex is_dial rest)
   \<and> (\<forall>err. dialContext e (ctx r) ''tcp'' (Host r) = Inl err \<longrightarrow>
         log (handleHTTPSConnect e r w) =
           log w @ [DialContext (ctx r) ''tcp'' (Host r),
                    HttpError (w_header w) ''Unable to connect to destination'' 503])"
proof (cases "dialContext e (ctx r) ''tcp'' (Host r)")
  case (Inl err)
  then show ?thesis
    by (simp add: connect_dial_failed)
next
  case dial: (Inr d)
  show ?thesis
  proof (cases "hijacker e")
    case None
    with dial show ?thesis
      by (simp add: connect_not_hijacker)
  next
    case (Some hj)
    show ?thesis
    proof (cases hj)
      case (Inl err)
      with dial Some show ?thesis
        by (simp add: connect_hijack_failed)
    next
      case (Inr c)
      with dial Some show ?thesis
        by (simp add: connect_established)
    qed
  qed
qed

text \<open>The sample tunnel, to a destination the sample dialer cannot reach.\<close>

theorem connect_dials_request_host_witness:
  "dialContext sample_env (ctx (connect_request\<lparr>Host := ''nowhere.test:80''\<rparr>)) ''tcp''
     (Host (connect_request\<lparr>Host := ''nowhere.test:80''\<rparr>)) = Inl (GoError ''unreachable'')
   \<and> log (handleHTTPSConnect sample_env (connect_request\<lparr>Host := ''nowhere.test:80''\<rparr>) fresh) =
       [DialContext (RequestContext 1) ''tcp'' ''nowhere.test:80'',
        HttpError [] ''Unable to connect to destination'' 503]"
proof -
  have d: "dialContext sample_env (ctx (connect_request\<lparr>Host := ''nowhere.test:80''\<rparr>)) ''tcp''
     (Host (connect_request\<lparr>Host := ''nowhere.test:80''\<rparr>)) = Inl (GoError ''unreachable'')"
    by (simp add: sample_defs)
  from connect_dials_request_host
         [of sample_env "connect_request\<lparr>Host := ''nowhere.test:80''\<rparr>" fresh] d
  have "log (handleHTTPSConnect sample_env (connect_request\<lparr>Host := ''nowhere.test:80''\<rparr>) fresh) =
       log fresh @ [DialContext (ctx (connect_request\<lparr>Host := ''nowhere.test:80''\<rparr>)) ''tcp''
                      (Host (connect_request\<lparr>Host := ''nowhere.test:80''\<rparr>)),
        HttpError (w_header fresh) ''Unable to connect to destination'' 503]"
    by blast
  then have "log (handleHTTPSConnect sample_env (connect_request\<lparr>Host := ''nowhere.test:80''\<rparr>) fresh) =
       [DialContext (RequestContext 1) ''tcp'' ''nowhere.test:80'',
        HttpError [] ''Unable to connect to destination'' 503]"
    by (simp add: sample_defs)
  with d show ?thesis by simp
qed

text \<open>
  C7. After a successful dial, if the response writer is no hijacker, or if it is one
  and the hijack fails, the handler replies 500 and closes the destination connection;
  the log holds nothing else after the dial (and the hijack call, if made): no write
  of the success line, no copy.
\<close>

theorem hijack_failure_closes_destination:
  assumes "dialContext e (ctx r) ''tcp'' (Host r) = Inr d"
  shows "(hijacker e = None \<longrightarrow>
            log (handleHTTPSConnect e r w) =
              log w @ [DialContext (ctx r) ''tcp'' (Host r),
                       HttpError (w_header w) ''Hijacking not supported'' 500,
                       ConnClose d])
       \<and> (\<forall>err. hijacker e = Some (Inl err) \<longrightarrow>
            log (handleHTTPSConnect e r w) =
              log w @ [DialContext (ctx r) ''tcp'' (Host r), Hijack,
                       HttpError (w_header w) ''Hijacking failed'' 500,
                       ConnClose d])"
  using assms by (simp add: connect_not_hijacker connect_hijack_failed)

text \<open>The sample tunnel, behind a writer that is no hijacker and behind one whose hijack fails.\<close>

theorem hijack_failure_closes_destination_witness:
  "dialContext sample_env (ctx connect_request) ''tcp'' (Host connect_request) = Inr (Conn 1)
   \<and> log (handleHTTPSConnect (sample_env\<lparr>hijacker := None\<rparr>) connect_request fresh) =
       [DialContext (RequestContext 1) ''tcp'' ''example.test:443'',
        HttpError [] ''Hijacking not supported'' 500, ConnClose (Conn 1)]
   \<and> log (handleHTTPSConnect (sample_env\<lparr>hijacker := Some (Inl (GoError ''hijacked''))\<rparr>)
            connect_request fresh) =
       [DialContext (RequestContext 1) ''tcp'' ''example.test:443'', Hijack,
        HttpError [] ''Hijacking failed'' 500, ConnClose (Conn 1)]"
proof -
  have d: "dialContext sample_env (ctx connect_request) ''tcp'' (Host connect_request) =
             Inr (Conn 1)"
    by (simp add: sample_defs)
  have d1: "dialContext (sample_env\<lparr>hijacker := None\<rparr>) (ctx connect_request) ''tcp''
              (Host connect_request) = Inr (Conn 1)"
    using d by simp
  have d2: "dialContext (sample_env\<lparr>hijacker := Some (Inl (GoError ''hijacked''))\<rparr>)
              (ctx connect_request) ''tcp'' (Host connect_request) = Inr (Conn 1)"
    using d by simp
  show ?thesis
    using d hijack_failure_closes_destination [OF d1, of fresh]
      hijack_failure_closes_destination [OF d2, of fresh]
    by (simp add: sample_defs)
qed

section \<open>The forward handler\<close>







text \<open>
  C9. An inbound request is malformed, for this handler, when \<open>http.NewRequest\<close> fails
  on it: its method is not a token, or \<open>url.Parse\<close> refuses its URL. The handler then
  replies 400 and does nothing else: \<open>client.Do\<close>, the one call that dials, is not made.
  When the request is built and \<open>client.Do\<close> fails, the handler replies 503 after that
  one call of \<open>client.Do\<close>: there is no second attempt.
\<close>

theorem forward_failures:
  "((Method r \<noteq> [] \<and> \<not> validMethod (Method r)) \<or> urlParseError e (URL r) \<noteq> None \<longrightarrow>
       log (handleHTTPProxy e r w) = log w @ [HttpError (w_header w) ''Invalid request'' 400])
   \<and> (\<forall>req0 err. newRequest e (Method r) (URL r) (Body r) = Inr req0 \<longrightarrow>
         client_Do e (req0\<lparr>Header := Header r\<rparr>) = Inl err \<longrightarrow>
         log (handleHTTPProxy e r w) =
           log w @ [ClientDo (req0\<lparr>Header := Header r\<rparr>),
                    HttpError (w_header w) ''Failed to reach destination'' 503])"
proof (intro conjI impI allI)
  assume "(Method r \<noteq> [] \<and> \<not> validMethod (Method r)) \<or> urlParseError e (URL r) \<noteq> None"
  then obtain err where "newRequest e (Method r) (URL r) (Body r) = Inl err"
    using newRequest_refused by blast
  then show "log (handleHTTPProxy e r w) =
               log w @ [HttpError (w_header w) ''Invalid request'' 400]"
    by (simp add: forward_invalid)
next
  fix req0 err
  assume "newRequest e (Method r) (URL r) (Body r) = Inr req0"
    and "client_Do e (req0\<lparr>Header := Header r\<rparr>) = Inl err"
  then show "log (handleHTTPProxy e r w) =
           log w @ [ClientDo (req0\<lparr>Header := Header r\<rparr>),
                    HttpError (w_header w) ''Failed to reach destination'' 503]"
    by (simp add: forward_unreachable)
qed

text \<open>
  The sample plain request with the method \<open>GE T\<close>, which has a space and is no token:
  the 400 reply alone. The sample plain request to a host that the tunnel cannot
  reach: one call of \<open>client.Do\<close>, then the 503 reply.
\<close>

theorem forward_failures_witness:
  "Method (get_request\<lparr>Method := ''GE T''\<rparr>) \<noteq> []
   \<and> \<not> validMethod (Method (get_request\<lparr>Method := ''GE T''\<rparr>))
   \<and> log (handleHTTPProxy sample_env (get_request\<lparr>Method := ''GE T''\<rparr>) fresh) =
       [HttpError [] ''Invalid request'' 400]
   \<and> roundTrip sample_env
        (get_request\<lparr>URL := ''http://nowhere.test/'', Host := ''nowhere.test'', ctx := Background\<rparr>) =
       Inl (GoError ''unreachable'')
   \<and> log (handleHTTPProxy sample_env
            (get_request\<lparr>URL := ''http://nowhere.test/'', Host := ''nowhere.test''\<rparr>) fresh) =
       [ClientDo (get_request\<lparr>URL := ''http://nowhere.test/'', Host := ''nowhere.test'',
                               ctx := Background\<rparr>),
        HttpError [] ''Failed to reach destination'' 503]"
proof -
  let ?bad = "get_request\<lparr>Method := ''GE T''\<rparr>"
  let ?far = "get_request\<lparr>URL := ''http://nowhere.test/'', Host := ''nowhere.test''\<rparr>"
  have b: "Method ?bad \<noteq> []" "\<not> validMethod (Method ?bad)"
    by (simp_all add: sample_valid)
  have n2: "newRequest sample_env (Method ?far) (URL ?far) (Body ?far) =
              Inr (?far\<lparr>Header := [], ctx := Background\<rparr>)"
    by (simp add: newRequest_built sample_parses sample_valid get_request_def)
       (simp add: sample_env_def)
  have rt: "roundTrip sample_env (?far\<lparr>ctx := Background\<rparr>) = Inl (GoError ''unreachable'')"
    by (simp add: sample_defs)
  have c2: "client_Do sample_env (?far\<lparr>Header := [], ctx := Background\<rparr>\<lparr>Header := Header ?far\<rparr>) =
              Inl (GoError ''unreachable'')"
    by (simp add: client_Do_def sample_defs)
  have l1: "log (handleHTTPProxy sample_env ?bad fresh) = [HttpError [] ''Invalid request'' 400]"
    using forward_failures [of ?bad sample_env fresh] b
    by (simp add: fresh_def)
  have l2: "log (handleHTTPProxy sample_env ?far fresh) =
       [ClientDo (?far\<lparr>ctx := Background\<rparr>), HttpError [] ''Failed to reach destination'' 503]"
    using forward_failures [of ?far sample_env fresh] n2 c2
    by (simp add: fresh_def)
  from b l1 rt l2 show ?thesis by simp
qed

section \<open>The write of the success line\<close>

text \<open>
  C10. The handler does not look at what the write of the success line returns. Whatever
  \<open>Write\<close> answers, a short count or an error included, the handler ends in the same
  world; in a session whose dial and hijack succeed it goes on to start both copies of
  the relay, and replies no error and writes nothing more to either connection.
\<close>

theorem write_result_discarded:
  "handleHTTPSConnect (e\<lparr>connWrite := wr\<rparr>) r w = handleHTTPSConnect e r w
   \<and> (\<forall>d c. dialContext e (ctx r) ''tcp'' (Host r) = Inr d \<longrightarrow> hijacker e = Some (Inr c) \<longrightarrow>
         log (handleHTTPSConnect (e\<lparr>connWrite := wr\<rparr>) r w) =
           log w @ [DialContext (ctx r) ''tcp'' (Host r), Hijack, ConnWrite c success_line,
                    GoCopy d c, Copy c d, ConnClose c, ConnClose d])"
proof (intro conjI allI impI)
  show same: "handleHTTPSConnect (e\<lparr>connWrite := wr\<rparr>) r w = handleHTTPSConnect e r w"
    by (simp add: handleHTTPSConnect_def Let_def split: sum.splits option.splits)
  fix d c
  assume "dialContext e (ctx r) ''tcp'' (Host r) = Inr d" and "hijacker e = Some (Inr c)"
  then show "log (handleHTTPSConnect (e\<lparr>connWrite := wr\<rparr>) r w) =
           log w @ [DialContext (ctx r) ''tcp'' (Host r), Hijack, ConnWrite c success_line,
                    GoCopy d c, Copy c d, ConnClose c, ConnClose d]"
    unfolding same by (simp add: connect_established)
qed

text \<open>The sample tunnel, over a client connection on which every write fails.\<close>

theorem write_result_discarded_witness:
  "connWrite (sample_env\<lparr>connWrite := (\<lambda>c b. (0, Some (GoError ''broken pipe'')))\<rparr>)
     (Conn 2) success_line = (0, Some (GoError ''broken pipe''))
   \<and> dialContext sample_env (ctx connect_request) ''tcp'' (Host connect_request) = Inr (Conn 1)
   \<and> hijacker sample_env = Some (Inr (Conn 2))
   \<and> log (handleHTTPSConnect
            (sample_env\<lparr>connWrite := (\<lambda>c b. (0, Some (GoError ''broken pipe'')))\<rparr>)
            connect_request fresh) =
       [DialContext (RequestContext 1) ''tcp'' ''example.test:443'', Hijack,
        ConnWrite (Conn 2) success_line, GoCopy (Conn 1) (Conn 2), Copy (Conn 2) (Conn 1),
        ConnClose (Conn 2), ConnClose (Conn 1)]"
proof -
  have d: "dialContext sample_env (ctx connect_request) ''tcp'' (Host connect_request) =
             Inr (Conn 1)"
    by (simp add: sample_defs)
  have h: "hijacker sample_env = Some (Inr (Conn 2))"
    by (simp add: sample_defs)
  from d h write_result_discarded
      [where e = sample_env and wr = "\<lambda>c b. (0, Some (GoError ''broken pipe''))"
         and r = connect_request and w = fresh]
  have "log (handleHTTPSConnect
            (sample_env\<lparr>connWrite := (\<lambda>c b. (0, Some (GoError ''broken pipe'')))\<rparr>)
            connect_request fresh) =
       log fresh @ [DialContext (ctx connect_request) ''tcp'' (Host connect_request), Hijack,
        ConnWrite (Conn 2) success_line, GoCopy (Conn 1) (Conn 2), Copy (Conn 2) (Conn 1),
        ConnClose (Conn 2), ConnClose (Conn 1)]"
    by blast
  moreover have "ctx connect_request = RequestContext 1" "Host connect_request = ''example.test:443''"
    "log fresh = []"
    by (simp_all add: connect_request_def fresh_def)
  ultimately show ?thesis
    using d h by simp
qed

end
